theory Spec2Isabelle
  imports Main
begin

section \<open>JavaScript values read from the router\<close>

text \<open>
  \<^verbatim>\<open>const location = useLocation() as any;\<close> makes everything below
  \<^verbatim>\<open>location.state\<close> an untyped JavaScript value, so the model carries the
  eight JavaScript types. A number is a sign, a mantissa and a binary exponent, or one of
  the special values; only whether it is zero or NaN matters to the code.
\<close>

datatype js_number = NaN | Infinity bool | Finite bool nat int

datatype js_value =
    JUndefined
  | JNull
  | JBoolean bool
  | JNumber js_number
  | JBigInt int
  | JString string
  | JSymbol string
  | JObject "(string \<times> js_value) list"

text \<open>ToBoolean: the falsy values are undefined, null, false, +0, -0, NaN, 0n and "".\<close>

fun truthy :: "js_value \<Rightarrow> bool" where
  "truthy JUndefined = False"
| "truthy JNull = False"
| "truthy (JBoolean b) = b"
| "truthy (JNumber NaN) = False"
| "truthy (JNumber (Infinity sg)) = True"
| "truthy (JNumber (Finite sg m e)) = (m \<noteq> 0)"
| "truthy (JBigInt i) = (i \<noteq> 0)"
| "truthy (JString str) = (str \<noteq> [])"
| "truthy (JSymbol d) = True"
| "truthy (JObject ps) = True"

text \<open>
  Reading the property \<open>k\<close> of a value that is neither null nor undefined. The handler
  reads only \<^verbatim>\<open>from\<close> and \<^verbatim>\<open>pathname\<close>, which no built-in prototype of a
  primitive defines, so a primitive yields undefined; an object is its property list.
\<close>

fun get_prop :: "js_value \<Rightarrow> string \<Rightarrow> js_value" where
  "get_prop (JObject ps) k = (case map_of ps k of Some v \<Rightarrow> v | None \<Rightarrow> JUndefined)"
| "get_prop v k = JUndefined"

text \<open>Optional chaining \<^verbatim>\<open>a?.k\<close>: undefined when \<open>a\<close> is null or undefined.\<close>

fun opt_get :: "js_value \<Rightarrow> string \<Rightarrow> js_value" where
  "opt_get JUndefined k = JUndefined"
| "opt_get JNull k = JUndefined"
| "opt_get v k = get_prop v k"

text \<open>The operator \<^verbatim>\<open>a || b\<close>.\<close>

definition js_or :: "js_value \<Rightarrow> js_value \<Rightarrow> js_value" where
  "js_or a b = (if truthy a then a else b)"

text \<open>The router's location object; the handler reads its \<^verbatim>\<open>state\<close> only.\<close>

record location =
  state :: js_value

section \<open>The authentication collaborator\<close>

text \<open>
  \<^verbatim>\<open>api.login(email, password)\<close> resolves with a result that holds the merchant and
  its email, or rejects with a thrown value. A thrown value is an instance of
  \<^verbatim>\<open>Error\<close>, whose \<^verbatim>\<open>message\<close> is a string, or any other value. The result
  is taken as typed: \<^verbatim>\<open>result.merchant.email\<close> is read without a failure.
  \<open>message\<close> of a value that is no \<^verbatim>\<open>Error\<close> is never read by the handler.
\<close>

record merchant =
  merchant_email :: string

record login_result =
  merchant :: merchant

datatype thrown = ErrorInstance string | NonError js_value

fun instanceof_Error :: "thrown \<Rightarrow> bool" where
  "instanceof_Error (ErrorInstance m) = True"
| "instanceof_Error (NonError v) = False"

fun message :: "thrown \<Rightarrow> string" where
  "message (ErrorInstance m) = m"
| "message (NonError v) = []"

type_synonym login_api = "string \<Rightarrow> string \<Rightarrow> thrown + login_result"

section \<open>The login page's state and the handler's effects\<close>

text \<open>The four \<^verbatim>\<open>useState\<close> cells of \<^verbatim>\<open>LoginPage\<close>, with their initial values.\<close>

record login_state =
  email :: string
  password :: string
  loading :: bool
  error :: "string option"

definition initial_state :: login_state where
  "initial_state = \<lparr>email = [], password = [], loading = False, error = None\<rparr>"

record navigate_options =
  replace :: bool

text \<open>What the component's code does to the outside, in the order it does it.\<close>

datatype effect =
    PreventDefault
  | SetEmail string
  | SetPassword string
  | SetLoading bool
  | SetError "string option"
  | ApiLogin string string
  | ConsoleLog string string
  | Navigate js_value navigate_options

fun apply_effect :: "effect \<Rightarrow> login_state \<Rightarrow> login_state" where
  "apply_effect (SetEmail v) s = s\<lparr>email := v\<rparr>"
| "apply_effect (SetPassword v) s = s\<lparr>password := v\<rparr>"
| "apply_effect (SetLoading b) s = s\<lparr>loading := b\<rparr>"
| "apply_effect (SetError m) s = s\<lparr>error := m\<rparr>"
| "apply_effect e s = s"

definition run :: "effect list \<Rightarrow> login_state \<Rightarrow> login_state" where
  "run effs s = fold apply_effect effs s"

fun navigations :: "effect list \<Rightarrow> (js_value \<times> navigate_options) list" where
  "navigations [] = []"
| "navigations (Navigate to opts # effs) = (to, opts) # navigations effs"
| "navigations (e # effs) = navigations effs"

fun is_ApiLogin :: "effect \<Rightarrow> bool" where
  "is_ApiLogin (ApiLogin e p) = True"
| "is_ApiLogin e = False"

text \<open>The effects that precede the first call of the collaborator.\<close>

definition before_call :: "effect list \<Rightarrow> effect list" where
  "before_call effs = takeWhile (\<lambda>e. \<not> is_ApiLogin e) effs"

subsection \<open>handleSubmit\<close>

text \<open>
  Lines 16 to 21: the part of the handler that runs before the \<^verbatim>\<open>await\<close> suspends it,
  ending with the call of \<^verbatim>\<open>api.login(email, password)\<close>.
\<close>

definition submit_begin :: "login_state \<Rightarrow> effect list" where
  "submit_begin s =
     [PreventDefault, SetLoading True, SetError None, ApiLogin (email s) (password s)]"

text \<open>Line 22: \<^verbatim>\<open>location.state?.from?.pathname || "/orders"\<close>.\<close>

definition redirect_from :: "location \<Rightarrow> js_value" where
  "redirect_from location =
     js_or (opt_get (opt_get (state location) ''from'') ''pathname'') (JString ''/orders'')"

text \<open>
  Lines 22 to 29: the continuation once the promise has settled; \<open>Inr\<close> is the resolved
  result, \<open>Inl\<close> the value the \<^verbatim>\<open>catch\<close> receives. The \<^verbatim>\<open>finally\<close> block runs on
  both paths. The three statements of the resolved branch are taken to complete: the
  result is as typed, and \<^verbatim>\<open>navigate\<close> returns. A throw from one of them would reach
  the \<^verbatim>\<open>catch\<close> as a rejection does; that path is not part of this model.
\<close>

definition submit_settle :: "location \<Rightarrow> thrown + login_result \<Rightarrow> effect list" where
  "submit_settle location outcome =
     (case outcome of
        Inr result \<Rightarrow>
          [ConsoleLog ''Logged in as'' (merchant_email (merchant result)),
           Navigate (redirect_from location) \<lparr>replace = True\<rparr>]
      | Inl err \<Rightarrow>
          [SetError (Some (if instanceof_Error err then message err else ''Login failed''))])
     @ [SetLoading False]"

definition handleSubmit :: "login_api \<Rightarrow> location \<Rightarrow> login_state \<Rightarrow> effect list" where
  "handleSubmit api_login location s =
     submit_begin s @ submit_settle location (api_login (email s) (password s))"

text \<open>The two \<^verbatim>\<open>onChange\<close> handlers of the inputs.\<close>

definition onChange_email :: "string \<Rightarrow> effect list" where
  "onChange_email v = [SetEmail v]"

definition onChange_password :: "string \<Rightarrow> effect list" where
  "onChange_password v = [SetPassword v]"

section \<open>Rendered elements\<close>

datatype handler = HandleSubmit | OnChangeEmail | OnChangePassword

datatype prop_value = PStr string | PBool bool | PHandler handler

text \<open>
  A JSX child is an element, a string, or a value that renders nothing
  (\<^verbatim>\<open>null\<close>, \<^verbatim>\<open>false\<close>).
\<close>

datatype node =
    Element string "(string \<times> prop_value) list" "node list"
  | Text string
  | Nothing

fun elements_named :: "string \<Rightarrow> node \<Rightarrow> node list" where
  "elements_named t (Element tag props children) =
     (if tag = t then [Element tag props children] else [])
     @ concat (map (elements_named t) children)"
| "elements_named t (Text str) = []"
| "elements_named t Nothing = []"

fun prop_of :: "node \<Rightarrow> string \<Rightarrow> prop_value option" where
  "prop_of (Element tag props children) k = map_of props k"
| "prop_of (Text str) k = None"
| "prop_of Nothing k = None"

fun elements_with_class :: "string \<Rightarrow> node \<Rightarrow> node list" where
  "elements_with_class c (Element tag props children) =
     (if map_of props ''className'' = Some (PStr c) then [Element tag props children] else [])
     @ concat (map (elements_with_class c) children)"
| "elements_with_class c (Text str) = []"
| "elements_with_class c Nothing = []"

text \<open>The text a user sees: React creates no text for an empty string child.\<close>

fun visible_text :: "node \<Rightarrow> string list" where
  "visible_text (Element tag props children) = concat (map visible_text children)"
| "visible_text (Text str) = (if str = [] then [] else [str])"
| "visible_text Nothing = []"

subsection \<open>LoginPage\<close>

text \<open>
  Lines 66 to 70: \<^verbatim>\<open>{error && (<div ...>{error}</div>)}\<close>. The operator yields its left
  operand when that is falsy: \<^verbatim>\<open>null\<close>, or the empty string.
\<close>

definition error_region :: "login_state \<Rightarrow> node" where
  "error_region s =
     (case error s of
        None \<Rightarrow> Nothing
      | Some m \<Rightarrow>
          if m = [] then Text m
          else Element ''div''
                 [(''className'', PStr ''rounded-md bg-red-50 p-3 text-sm text-red-800'')]
                 [Text m])"

definition LoginPage :: "login_state \<Rightarrow> node" where
  "LoginPage s =
     Element ''div''
       [(''className'', PStr ''flex min-h-screen items-center justify-center bg-background px-4 sm:px-6 lg:px-8'')]
       [Element ''div''
          [(''className'', PStr ''w-full max-w-md rounded-lg border bg-card shadow-sm p-4 sm:px-6 lg:px-8'')]
          [Element ''h1'' [(''className'', PStr ''mb-2 text-2xl font-bold'')]
             [Text ''Merchant Login''],
           Element ''p'' [(''className'', PStr ''mb-6 text-sm text-muted-foreground'')]
             [Text ''Sign in with your merchant email and password.''],
           Element ''form''
             [(''onSubmit'', PHandler HandleSubmit), (''className'', PStr ''space-y-4'')]
             [Element ''div'' [(''className'', PStr ''space-y-2'')]
                [Element ''label''
                   [(''className'', PStr ''text-sm font-medium''), (''htmlFor'', PStr ''email'')]
                   [Text ''Email''],
                 Element ''Input''
                   [(''id'', PStr ''email''), (''type'', PStr ''email''),
                    (''autoComplete'', PStr ''email''), (''value'', PStr (email s)),
                    (''onChange'', PHandler OnChangeEmail), (''required'', PBool True)]
                   []],
              Element ''div'' [(''className'', PStr ''space-y-2'')]
                [Element ''label''
                   [(''className'', PStr ''text-sm font-medium''), (''htmlFor'', PStr ''password'')]
                   [Text ''Password''],
                 Element ''Input''
                   [(''id'', PStr ''password''), (''type'', PStr ''password''),
                    (''autoComplete'', PStr ''current-password''), (''value'', PStr (password s)),
                    (''onChange'', PHandler OnChangePassword), (''required'', PBool True)]
                   []],
              error_region s,
              Element ''Button''
                [(''type'', PStr ''submit''), (''className'', PStr ''w-full''),
                 (''disabled'', PBool (loading s))]
                [Text (if loading s then ''Signing in...'' else ''Sign in'')]]]]"

subsection \<open>NotFoundPage\<close>

definition NotFoundPage :: node where
  "NotFoundPage =
     Element ''div''
       [(''className'', PStr ''flex flex-col items-center justify-center text-center gap-4 py-16'')]
       [Element ''div'' []
          [Element ''p'' [(''className'', PStr ''text-sm font-semibold text-primary tracking-wider'')]
             [Text ''404''],
           Element ''h1'' [(''className'', PStr ''mt-2 text-3xl font-bold'')]
             [Text ''Page not found''],
           Element ''p'' [(''className'', PStr ''mt-2 text-muted-foreground max-w-md'')]
             [Text ''The page you are looking for doesn't exist or was moved. Use the navigation or go back to the dashboard.'']],
        Element ''div'' [(''className'', PStr ''flex flex-wrap gap-3'')]
          [Element ''Link''
             [(''to'', PStr ''/orders''),
              (''className'', PStr ''inline-flex items-center justify-center rounded-md bg-primary px-4 py-2 text-sm font-medium text-primary-foreground hover:bg-primary/90'')]
             [Text ''Go to Orders''],
           Element ''Link''
             [(''to'', PStr ''/''),
              (''className'', PStr ''inline-flex items-center justify-center rounded-md border px-4 py-2 text-sm font-medium'')]
             [Text ''Back to dashboard'']]]"

section \<open>The router's history\<close>

text \<open>
  Modelled from the spec: the routing collaborator's history. The router and the browser's
  session history are not in the source files; the handler only calls \<^verbatim>\<open>navigate\<close>.
  The spec (4.1, 6) describes an imperative navigation operation that supports
  "replace current history entry", used to "transition the browser to that target,
  replacing the current history entry (so back-navigation does not return to the login
  page)", where the target is a path string. So the history is a list of paths with a
  current position. A navigation with \<^verbatim>\<open>replace\<close> set puts the target in place of the
  current entry; without it the target becomes a new entry after the current one and the
  entries beyond are dropped. For a target that is not a path string the spec says nothing,
  and the model gives no result.
\<close>

record history =
  entries :: "string list"
  current :: nat

fun router_navigate :: "js_value \<Rightarrow> navigate_options \<Rightarrow> history \<Rightarrow> history option" where
  "router_navigate (JString p) opts h =
     Some (if replace opts
           then h\<lparr>entries := (entries h)[current h := p]\<rparr>
           else h\<lparr>entries := take (Suc (current h)) (entries h) @ [p],
                  current := Suc (current h)\<rparr>)"
| "router_navigate to opts h = None"

text \<open>Back-navigation: one entry back; at the first entry there is nowhere to go.\<close>

definition go_back :: "history \<Rightarrow> history" where
  "go_back h = (if current h = 0 then h else h\<lparr>current := current h - 1\<rparr>)"

definition current_path :: "history \<Rightarrow> string option" where
  "current_path h =
     (if current h < length (entries h) then Some (entries h ! current h) else None)"

text \<open>The history after the navigations of a run of the handler, in their order.\<close>

fun history_after :: "effect list \<Rightarrow> history \<Rightarrow> history option" where
  "history_after [] h = Some h"
| "history_after (Navigate to opts # effs) h =
     (case router_navigate to opts h of
        None \<Rightarrow> None
      | Some h' \<Rightarrow> history_after effs h')"
| "history_after (e # effs) h = history_after effs h"

section \<open>Collaborators used at concrete inputs\<close>

definition login_resolves :: login_api where
  "login_resolves e p = Inr \<lparr>merchant = \<lparr>merchant_email = e\<rparr>\<rparr>"

definition login_rejects :: "thrown \<Rightarrow> login_api" where
  "login_rejects err e p = Inl err"

definition filled_form :: login_state where
  "filled_form =
     \<lparr>email = ''merchant@example.com'', password = ''secret'', loading = False,
      error = Some ''Invalid credentials''\<rparr>"

definition location_from :: "js_value \<Rightarrow> location" where
  "location_from p = \<lparr>state = JObject [(''from'', JObject [(''pathname'', p)])]\<rparr>"

section \<open>Facts about the handler and the views\<close>

lemma settle_resolved:
  "submit_settle location (Inr result) =
     [ConsoleLog ''Logged in as'' (merchant_email (merchant result)),
      Navigate (redirect_from location) \<lparr>replace = True\<rparr>,
      SetLoading False]"
  by (simp add: submit_settle_def)

lemma settle_rejected:
  "submit_settle location (Inl err) =
     [SetError (Some (if instanceof_Error err then message err else ''Login failed'')),
      SetLoading False]"
  by (simp add: submit_settle_def)

lemma run_handleSubmit:
  "run (handleSubmit api_login location s) s' =
     run (submit_settle location (api_login (email s) (password s)))
       (s'\<lparr>loading := True, error := None\<rparr>)"
  by (simp add: run_def handleSubmit_def submit_begin_def)

lemma run_settle_rejected:
  "run (submit_settle location (Inl err)) s' =
     s'\<lparr>error := Some (if instanceof_Error err then message err else ''Login failed''),
        loading := False\<rparr>"
  by (simp add: run_def settle_rejected)

lemma run_settle_resolved:
  "run (submit_settle location (Inr result)) s' = s'\<lparr>loading := False\<rparr>"
  by (simp add: run_def settle_resolved)

lemma navigations_begin:
  "navigations (submit_begin s @ effs) = navigations effs"
  by (simp add: submit_begin_def)

lemma redirect_from_chain:
  "redirect_from location =
     (if truthy (opt_get (opt_get (state location) ''from'') ''pathname'')
      then opt_get (opt_get (state location) ''from'') ''pathname''
      else JString ''/orders'')"
  by (simp add: redirect_from_def js_or_def)

lemma chain_location_from:
  "opt_get (opt_get (state (location_from p)) ''from'') ''pathname'' = p"
  by (simp add: location_from_def)

lemma button_of_LoginPage:
  "elements_named ''Button'' (LoginPage s) =
     [Element ''Button''
        [(''type'', PStr ''submit''), (''className'', PStr ''w-full''),
         (''disabled'', PBool (loading s))]
        [Text (if loading s then ''Signing in...'' else ''Sign in'')]]"
  by (cases "error s") (simp_all add: LoginPage_def error_region_def)

lemma visible_text_LoginPage:
  "visible_text (LoginPage s) =
     [''Merchant Login'', ''Sign in with your merchant email and password.'', ''Email'',
      ''Password'']
     @ (case error s of None \<Rightarrow> [] | Some m \<Rightarrow> if m = [] then [] else [m])
     @ [if loading s then ''Signing in...'' else ''Sign in'']"
  by (cases "error s") (simp_all add: LoginPage_def error_region_def)

lemma error_divs_LoginPage:
  "elements_with_class ''rounded-md bg-red-50 p-3 text-sm text-red-800'' (LoginPage s) =
     (case error s of
        None \<Rightarrow> []
      | Some m \<Rightarrow>
          if m = [] then []
          else [Element ''div''
                  [(''className'', PStr ''rounded-md bg-red-50 p-3 text-sm text-red-800'')]
                  [Text m]])"
  by (cases "error s") (simp_all add: LoginPage_def error_region_def)

lemma forms_of_LoginPage: "length (elements_named ''form'' (LoginPage s)) = 1"
  by (cases "error s") (simp_all add: LoginPage_def error_region_def)

lemma filter_calls:
  "filter is_ApiLogin (handleSubmit api_login location s) = [ApiLogin (email s) (password s)]"
  by (cases "api_login (email s) (password s)")
     (simp_all add: handleSubmit_def submit_begin_def settle_resolved settle_rejected)

lemma history_after_begin:
  "history_after (submit_begin s @ effs) h = history_after effs h"
  by (simp add: submit_begin_def)

lemma history_after_settle_resolved:
  "history_after (submit_settle location (Inr result)) h =
     router_navigate (redirect_from location) \<lparr>replace = True\<rparr> h"
  by (simp add: settle_resolved split: option.split)

lemma replace_at_current:
  "router_navigate (JString p) \<lparr>replace = True\<rparr>
       \<lparr>entries = before @ old # after, current = length before\<rparr> =
     Some \<lparr>entries = before @ p # after, current = length before\<rparr>"
  by simp

lemma push_keeps_current:
  "router_navigate (JString p) \<lparr>replace = False\<rparr>
       \<lparr>entries = before @ old # after, current = length before\<rparr> =
     Some \<lparr>entries = before @ [old, p], current = Suc (length before)\<rparr>"
  by simp

lemma back_after_push:
  "current_path (go_back \<lparr>entries = before @ [old, p], current = Suc (length before)\<rparr>) =
     Some old"
  by (simp add: go_back_def current_path_def)

lemma back_after_replace:
  "current_path (go_back \<lparr>entries = before @ p # after, current = length before\<rparr>) =
     Some (if before = [] then p else last before)"
proof (cases "before = []")
  case True
  then show ?thesis by (simp add: go_back_def current_path_def)
next
  case False
  then have "(before @ p # after) ! (length before - 1) = last before"
    by (simp add: nth_append last_conv_nth)
  with False show ?thesis by (simp add: go_back_def current_path_def)
qed

lemma redirect_is_path:
  "\<not> truthy (opt_get (opt_get (state location) ''from'') ''pathname'')
     \<Longrightarrow> redirect_from location = JString ''/orders''"
  "opt_get (opt_get (state location) ''from'') ''pathname'' = JString p \<Longrightarrow> p \<noteq> []
     \<Longrightarrow> redirect_from location = JString p"
  by (simp_all add: redirect_from_chain)

section \<open>The claims\<close>

text \<open>
  Claim C1, as the code has it. After a login that resolves, the handler navigates once,
  to the value of \<^verbatim>\<open>location.state?.from?.pathname\<close> when that value is truthy (for a
  string: when it is not empty), and to \<^verbatim>\<open>"/orders"\<close> otherwise; in particular to
  \<^verbatim>\<open>"/orders"\<close> when the location carries no state (null or undefined).
\<close>

theorem redirect_after_login:
  assumes "api_login (email s) (password s) = Inr result"
  shows "map fst (navigations (handleSubmit api_login location s)) =
           [if truthy (opt_get (opt_get (state location) ''from'') ''pathname'')
            then opt_get (opt_get (state location) ''from'') ''pathname''
            else JString ''/orders'']
         \<and> map fst (navigations (handleSubmit api_login (location\<lparr>state := JNull\<rparr>) s)) =
           [JString ''/orders'']
         \<and> map fst (navigations (handleSubmit api_login (location\<lparr>state := JUndefined\<rparr>) s)) =
           [JString ''/orders'']"
  using assms
  by (simp add: handleSubmit_def navigations_begin settle_resolved redirect_from_chain)

text \<open>
  The context \<^verbatim>\<open>{from: {pathname: "/dashboard/settings"}}\<close> leads to
  \<^verbatim>\<open>/dashboard/settings\<close>, and a location without state to \<^verbatim>\<open>/orders\<close>.
\<close>

theorem redirect_after_login_witness:
  "login_resolves (email filled_form) (password filled_form)
     = Inr \<lparr>merchant = \<lparr>merchant_email = ''merchant@example.com''\<rparr>\<rparr>
   \<and> map fst (navigations (handleSubmit login_resolves
         (location_from (JString ''/dashboard/settings'')) filled_form))
       = [JString ''/dashboard/settings'']
   \<and> map fst (navigations (handleSubmit login_resolves \<lparr>state = JNull\<rparr> filled_form))
       = [JString ''/orders'']"
proof -
  have ok: "login_resolves (email filled_form) (password filled_form)
     = Inr \<lparr>merchant = \<lparr>merchant_email = ''merchant@example.com''\<rparr>\<rparr>"
    by (simp add: login_resolves_def filled_form_def)
  from redirect_after_login [where api_login = login_resolves and s = filled_form
      and location = "location_from (JString ''/dashboard/settings'')", OF ok] ok
  show ?thesis by (simp add: location_from_def)
qed

text \<open>
  Claim C1 as written fails where the supplied pathname is the empty string: the
  context \<^verbatim>\<open>{from: {pathname: ""}}\<close> supplies a pathname, and the handler navigates to
  \<^verbatim>\<open>"/orders"\<close>, not to the supplied value.
\<close>

theorem empty_pathname_is_not_followed:
  "opt_get (opt_get (state (location_from (JString ''''))) ''from'') ''pathname'' = JString ''''
   \<and> login_resolves (email filled_form) (password filled_form)
       = Inr \<lparr>merchant = \<lparr>merchant_email = ''merchant@example.com''\<rparr>\<rparr>
   \<and> map fst (navigations (handleSubmit login_resolves (location_from (JString '''')) filled_form))
       = [JString ''/orders'']
   \<and> map fst (navigations (handleSubmit login_resolves (location_from (JString '''')) filled_form))
       \<noteq> [JString '''']"
  by (simp add: handleSubmit_def navigations_begin settle_resolved redirect_from_chain
      chain_location_from login_resolves_def filled_form_def)

text \<open>
  Claim C2. When the collaborator rejects with an \<^verbatim>\<open>Error\<close> whose message is
  \<^verbatim>\<open>"Invalid credentials"\<close>, the error state becomes that text and the loading flag
  is false again; the handler does not navigate, the form is still rendered, the text is
  among the visible text, and the submit button is enabled with its label
  \<^verbatim>\<open>"Sign in"\<close>.
\<close>

theorem invalid_credentials_shown:
  assumes "api_login (email s) (password s) = Inl (ErrorInstance ''Invalid credentials'')"
  shows "error (run (handleSubmit api_login location s) s) = Some ''Invalid credentials''
         \<and> loading (run (handleSubmit api_login location s) s) = False
         \<and> navigations (handleSubmit api_login location s) = []
         \<and> length (elements_named ''form'' (LoginPage (run (handleSubmit api_login location s) s))) = 1
         \<and> ''Invalid credentials'' \<in> set (visible_text (LoginPage (run (handleSubmit api_login location s) s)))
         \<and> elements_named ''Button'' (LoginPage (run (handleSubmit api_login location s) s)) =
             [Element ''Button''
                [(''type'', PStr ''submit''), (''className'', PStr ''w-full''),
                 (''disabled'', PBool False)]
                [Text ''Sign in'']]"
proof -
  have fin: "run (handleSubmit api_login location s) s =
      s\<lparr>loading := False, error := Some ''Invalid credentials''\<rparr>"
    using assms by (simp add: run_handleSubmit run_settle_rejected)
  have nav: "navigations (handleSubmit api_login location s) = []"
    using assms by (simp add: handleSubmit_def navigations_begin settle_rejected)
  show ?thesis
    by (simp add: fin nav forms_of_LoginPage visible_text_LoginPage button_of_LoginPage)
qed

text \<open>
  A rejecting collaborator on a filled form.
\<close>

theorem invalid_credentials_shown_witness:
  "login_rejects (ErrorInstance ''Invalid credentials'') (email filled_form) (password filled_form)
     = Inl (ErrorInstance ''Invalid credentials'')
   \<and> error (run (handleSubmit (login_rejects (ErrorInstance ''Invalid credentials''))
        \<lparr>state = JNull\<rparr> filled_form) filled_form) = Some ''Invalid credentials''
   \<and> loading (run (handleSubmit (login_rejects (ErrorInstance ''Invalid credentials''))
        \<lparr>state = JNull\<rparr> filled_form) filled_form) = False"
proof -
  have rej: "login_rejects (ErrorInstance ''Invalid credentials'') (email filled_form)
      (password filled_form) = Inl (ErrorInstance ''Invalid credentials'')"
    by (simp add: login_rejects_def)
  from invalid_credentials_shown [where api_login = "login_rejects (ErrorInstance ''Invalid credentials'')"
      and s = filled_form and location = "\<lparr>state = JNull\<rparr>", OF rej] rej
  show ?thesis by simp
qed


text \<open>
  Claim C3. When the collaborator rejects with a value that is not an instance of
  \<^verbatim>\<open>Error\<close>, the error state becomes the fixed text \<^verbatim>\<open>"Login failed"\<close>, which is
  then among the visible text.
\<close>

theorem non_error_rejection_fallback:
  assumes "api_login (email s) (password s) = Inl (NonError v)"
  shows "error (run (handleSubmit api_login location s) s) = Some ''Login failed''
         \<and> ''Login failed'' \<in> set (visible_text (LoginPage (run (handleSubmit api_login location s) s)))"
proof -
  have fin: "run (handleSubmit api_login location s) s =
      s\<lparr>loading := False, error := Some ''Login failed''\<rparr>"
    using assms by (simp add: run_handleSubmit run_settle_rejected)
  show ?thesis by (simp add: fin visible_text_LoginPage)
qed

text \<open>
  A rejection with the plain object \<^verbatim>\<open>{message: "Invalid credentials"}\<close>: its
  own message is not used.
\<close>

theorem non_error_rejection_fallback_witness:
  "login_rejects (NonError (JObject [(''message'', JString ''Invalid credentials'')]))
      (email filled_form) (password filled_form)
     = Inl (NonError (JObject [(''message'', JString ''Invalid credentials'')]))
   \<and> error (run (handleSubmit
        (login_rejects (NonError (JObject [(''message'', JString ''Invalid credentials'')])))
        \<lparr>state = JNull\<rparr> filled_form) filled_form) = Some ''Login failed''"
proof -
  have rej: "login_rejects (NonError (JObject [(''message'', JString ''Invalid credentials'')]))
      (email filled_form) (password filled_form)
     = Inl (NonError (JObject [(''message'', JString ''Invalid credentials'')]))"
    by (simp add: login_rejects_def)
  from non_error_rejection_fallback [where api_login =
        "login_rejects (NonError (JObject [(''message'', JString ''Invalid credentials'')]))"
      and s = filled_form and location = "\<lparr>state = JNull\<rparr>", OF rej] rej
  show ?thesis by simp
qed

text \<open>
  Claim C4. In every invocation, what the handler does before it calls the collaborator
  is exactly: prevent the default submission, set the loading flag to true, set the error
  to null. The call comes next, with the email and password of the state, and is the only
  call. After those three effects the loading flag is true and the error is null, whatever
  they were before.
\<close>

theorem submit_prologue:
  "before_call (handleSubmit api_login location s) =
     [PreventDefault, SetLoading True, SetError None]
   \<and> take 4 (handleSubmit api_login location s) =
     [PreventDefault, SetLoading True, SetError None, ApiLogin (email s) (password s)]
   \<and> filter is_ApiLogin (handleSubmit api_login location s) = [ApiLogin (email s) (password s)]
   \<and> loading (run (before_call (handleSubmit api_login location s)) s) = True
   \<and> error (run (before_call (handleSubmit api_login location s)) s) = None"
proof -
  have pre: "before_call (handleSubmit api_login location s) =
      [PreventDefault, SetLoading True, SetError None]"
    by (simp add: before_call_def handleSubmit_def submit_begin_def)
  have upto: "take 4 (handleSubmit api_login location s) =
      [PreventDefault, SetLoading True, SetError None, ApiLogin (email s) (password s)]"
    by (simp add: handleSubmit_def submit_begin_def)
  show ?thesis by (simp add: pre upto filter_calls run_def)
qed

text \<open>
  Claim C5. A submission that fails changes the loading flag and the error only: the
  state afterwards is the state before with loading false and the error set, so the email
  and the password are what the user entered.
\<close>

theorem failed_submit_keeps_fields:
  assumes "api_login (email s) (password s) = Inl err"
  shows "run (handleSubmit api_login location s) s =
           s\<lparr>loading := False,
             error := Some (if instanceof_Error err then message err else ''Login failed'')\<rparr>
         \<and> email (run (handleSubmit api_login location s) s) = email s
         \<and> password (run (handleSubmit api_login location s) s) = password s"
  using assms by (simp add: run_handleSubmit run_settle_rejected)

text \<open>
  A rejected submission of a filled form keeps both fields.
\<close>

theorem failed_submit_keeps_fields_witness:
  "login_rejects (ErrorInstance ''Network down'') (email filled_form) (password filled_form)
     = Inl (ErrorInstance ''Network down'')
   \<and> email (run (handleSubmit (login_rejects (ErrorInstance ''Network down''))
        \<lparr>state = JNull\<rparr> filled_form) filled_form) = ''merchant@example.com''
   \<and> password (run (handleSubmit (login_rejects (ErrorInstance ''Network down''))
        \<lparr>state = JNull\<rparr> filled_form) filled_form) = ''secret''"
proof -
  have rej: "login_rejects (ErrorInstance ''Network down'') (email filled_form)
      (password filled_form) = Inl (ErrorInstance ''Network down'')"
    by (simp add: login_rejects_def)
  from failed_submit_keeps_fields [where api_login = "login_rejects (ErrorInstance ''Network down'')"
      and s = filled_form and location = "\<lparr>state = JNull\<rparr>", OF rej] rej
  show ?thesis by (simp add: filled_form_def)
qed

text \<open>
  Claim C6. In every state the page renders one submit button, disabled exactly when
  the loading flag is set and then labelled \<^verbatim>\<open>"Signing in..."\<close>, otherwise labelled
  \<^verbatim>\<open>"Sign in"\<close>. The flag is true while the call is in flight and false once the
  handler has finished, whether the call resolved or rejected.
\<close>

theorem submit_button_tracks_loading:
  "elements_named ''Button'' (LoginPage s) =
     [Element ''Button''
        [(''type'', PStr ''submit''), (''className'', PStr ''w-full''),
         (''disabled'', PBool (loading s))]
        [Text (if loading s then ''Signing in...'' else ''Sign in'')]]
   \<and> loading (run (submit_begin s) s) = True
   \<and> loading (run (handleSubmit api_login location s) s) = False"
proof -
  have inflight: "loading (run (submit_begin s) s) = True"
    by (simp add: run_def submit_begin_def)
  have settled: "loading (run (handleSubmit api_login location s) s) = False"
    by (cases "api_login (email s) (password s)")
       (simp_all add: run_handleSubmit run_settle_rejected run_settle_resolved)
  show ?thesis by (simp add: button_of_LoginPage inflight settled)
qed

text \<open>
  Claim C7. After a login that resolves the handler navigates exactly once, to the
  redirect target, with the option \<^verbatim>\<open>replace: true\<close>. When the target is a path, the
  router then puts it in place of the current history entry, the login page's: the entries
  before and after stay, the login page's entry is gone, and back-navigation leads to the
  entry before it (or stays on the target when there is none), not to the login page.
\<close>

theorem navigate_replaces_history_entry:
  assumes "api_login (email s) (password s) = Inr result"
  shows "navigations (handleSubmit api_login location s) =
           [(redirect_from location, \<lparr>replace = True\<rparr>)]
         \<and> (redirect_from location = JString p \<longrightarrow>
              history_after (handleSubmit api_login location s)
                  \<lparr>entries = before @ login_page # after, current = length before\<rparr> =
                Some \<lparr>entries = before @ p # after, current = length before\<rparr>
              \<and> Option.bind
                  (history_after (handleSubmit api_login location s)
                     \<lparr>entries = before @ login_page # after, current = length before\<rparr>)
                  (\<lambda>h. current_path (go_back h)) =
                Some (if before = [] then p else last before))"
proof -
  have nav: "navigations (handleSubmit api_login location s) =
      [(redirect_from location, \<lparr>replace = True\<rparr>)]"
    using assms by (simp add: handleSubmit_def navigations_begin settle_resolved)
  have hist: "history_after (handleSubmit api_login location s) h =
      router_navigate (redirect_from location) \<lparr>replace = True\<rparr> h" for h
    using assms
    by (simp add: handleSubmit_def history_after_begin history_after_settle_resolved)
  show ?thesis
    by (simp add: nav hist replace_at_current back_after_replace del: router_navigate.simps)
qed

text \<open>
  A visitor at \<^verbatim>\<open>/\<close> was sent to \<^verbatim>\<open>/login\<close> on the way to
  \<^verbatim>\<open>/dashboard/settings\<close>: after the login the history is \<^verbatim>\<open>/\<close>,
  \<^verbatim>\<open>/dashboard/settings\<close>, and going back shows \<^verbatim>\<open>/\<close>.
\<close>

theorem navigate_replaces_history_entry_witness:
  "login_resolves (email filled_form) (password filled_form)
     = Inr \<lparr>merchant = \<lparr>merchant_email = ''merchant@example.com''\<rparr>\<rparr>
   \<and> redirect_from (location_from (JString ''/dashboard/settings''))
       = JString ''/dashboard/settings''
   \<and> navigations (handleSubmit login_resolves
         (location_from (JString ''/dashboard/settings'')) filled_form)
       = [(JString ''/dashboard/settings'', \<lparr>replace = True\<rparr>)]
   \<and> history_after (handleSubmit login_resolves
         (location_from (JString ''/dashboard/settings'')) filled_form)
         \<lparr>entries = [''/'', ''/login''], current = 1\<rparr>
       = Some \<lparr>entries = [''/'', ''/dashboard/settings''], current = 1\<rparr>
   \<and> Option.bind
         (history_after (handleSubmit login_resolves
            (location_from (JString ''/dashboard/settings'')) filled_form)
            \<lparr>entries = [''/'', ''/login''], current = 1\<rparr>)
         (\<lambda>h. current_path (go_back h))
       = Some ''/''"
proof -
  have ok: "login_resolves (email filled_form) (password filled_form)
     = Inr \<lparr>merchant = \<lparr>merchant_email = ''merchant@example.com''\<rparr>\<rparr>"
    by (simp add: login_resolves_def filled_form_def)
  have target: "redirect_from (location_from (JString ''/dashboard/settings''))
      = JString ''/dashboard/settings''"
    by (simp add: redirect_from_chain chain_location_from)
  from navigate_replaces_history_entry [where api_login = login_resolves and s = filled_form
      and location = "location_from (JString ''/dashboard/settings'')"
      and p = "''/dashboard/settings''" and before = "[''/'']" and login_page = "''/login''"
      and after = "[]", OF ok] ok target
  show ?thesis by (simp add: go_back_def current_path_def)
qed

text \<open>
  Claim C8. The not-found page is a constant: it takes no input. It renders exactly two
  \<^verbatim>\<open>Link\<close> elements, the first to \<^verbatim>\<open>/orders\<close> and the second to \<^verbatim>\<open>/\<close>, and no
  other anchor.
\<close>

theorem not_found_links:
  "map (\<lambda>n. prop_of n ''to'') (elements_named ''Link'' NotFoundPage) =
     [Some (PStr ''/orders''), Some (PStr ''/'')]
   \<and> elements_named ''a'' NotFoundPage = []"
  by (simp add: NotFoundPage_def)

text \<open>
  Claim C9. When the navigation state has a \<^verbatim>\<open>from\<close> object whose
  \<^verbatim>\<open>pathname\<close> is present but falsy (the empty string, for one), a login that resolves
  navigates to \<^verbatim>\<open>"/orders"\<close>.
\<close>

theorem falsy_pathname_falls_back:
  assumes "api_login (email s) (password s) = Inr result"
    and "state location = JObject ps"
    and "map_of ps ''from'' = Some (JObject qs)"
    and "map_of qs ''pathname'' = Some v"
    and "\<not> truthy v"
  shows "navigations (handleSubmit api_login location s) =
           [(JString ''/orders'', \<lparr>replace = True\<rparr>)]"
proof -
  have chain: "opt_get (opt_get (state location) ''from'') ''pathname'' = v"
    using assms(2-4) by simp
  have "redirect_from location = JString ''/orders''"
    using assms(5) by (simp add: redirect_from_chain chain)
  then show ?thesis
    using assms(1) by (simp add: handleSubmit_def navigations_begin settle_resolved)
qed

text \<open>
  The context \<^verbatim>\<open>{from: {pathname: ""}}\<close>.
\<close>

theorem falsy_pathname_falls_back_witness:
  "login_resolves (email filled_form) (password filled_form)
     = Inr \<lparr>merchant = \<lparr>merchant_email = ''merchant@example.com''\<rparr>\<rparr>
   \<and> state (location_from (JString '''')) = JObject [(''from'', JObject [(''pathname'', JString '''')])]
   \<and> map_of [(''from'', JObject [(''pathname'', JString '''')])] ''from''
       = Some (JObject [(''pathname'', JString '''')])
   \<and> map_of [(''pathname'', JString '''')] ''pathname'' = Some (JString '''')
   \<and> \<not> truthy (JString '''')
   \<and> navigations (handleSubmit login_resolves (location_from (JString '''')) filled_form)
       = [(JString ''/orders'', \<lparr>replace = True\<rparr>)]"
proof -
  have ok: "login_resolves (email filled_form) (password filled_form)
     = Inr \<lparr>merchant = \<lparr>merchant_email = ''merchant@example.com''\<rparr>\<rparr>"
    by (simp add: login_resolves_def filled_form_def)
  have st: "state (location_from (JString '''')) =
      JObject [(''from'', JObject [(''pathname'', JString '''')])]"
    by (simp add: location_from_def)
  have fr: "map_of [(''from'', JObject [(''pathname'', JString '''')])] ''from''
       = Some (JObject [(''pathname'', JString '''')])"
    by simp
  have pn: "map_of [(''pathname'', JString '''')] ''pathname'' = Some (JString '''')"
    by simp
  have falsy: "\<not> truthy (JString '''')"
    by simp
  from falsy_pathname_falls_back [where api_login = login_resolves and s = filled_form, OF ok st fr pn falsy]
    ok st fr pn falsy
  show ?thesis by simp
qed

text \<open>
  Claim C10. When the collaborator rejects with an \<^verbatim>\<open>Error\<close> whose message is the
  empty string, the error state becomes the empty string, the error region evaluates to
  that empty string, no error box is rendered, and the visible text of the page is the
  static text only.
\<close>

theorem empty_error_message_hidden:
  assumes "api_login (email s) (password s) = Inl (ErrorInstance [])"
  shows "error (run (handleSubmit api_login location s) s) = Some []
         \<and> error_region (run (handleSubmit api_login location s) s) = Text []
         \<and> elements_with_class ''rounded-md bg-red-50 p-3 text-sm text-red-800''
             (LoginPage (run (handleSubmit api_login location s) s)) = []
         \<and> visible_text (LoginPage (run (handleSubmit api_login location s) s)) =
             [''Merchant Login'', ''Sign in with your merchant email and password.'',
              ''Email'', ''Password'', ''Sign in'']"
proof -
  have fin: "run (handleSubmit api_login location s) s = s\<lparr>loading := False, error := Some []\<rparr>"
    using assms by (simp add: run_handleSubmit run_settle_rejected)
  show ?thesis
    by (simp add: fin error_region_def error_divs_LoginPage visible_text_LoginPage)
qed

text \<open>
  A rejection with \<^verbatim>\<open>new Error("")\<close> on a filled form.
\<close>

theorem empty_error_message_hidden_witness:
  "login_rejects (ErrorInstance []) (email filled_form) (password filled_form)
     = Inl (ErrorInstance [])
   \<and> error (run (handleSubmit (login_rejects (ErrorInstance []))
        \<lparr>state = JNull\<rparr> filled_form) filled_form) = Some []
   \<and> visible_text (LoginPage (run (handleSubmit (login_rejects (ErrorInstance []))
        \<lparr>state = JNull\<rparr> filled_form) filled_form)) =
       [''Merchant Login'', ''Sign in with your merchant email and password.'',
        ''Email'', ''Password'', ''Sign in'']"
proof -
  have rej: "login_rejects (ErrorInstance []) (email filled_form) (password filled_form)
      = Inl (ErrorInstance [])"
    by (simp add: login_rejects_def)
  from empty_error_message_hidden [where api_login = "login_rejects (ErrorInstance [])"
      and s = filled_form and location = "\<lparr>state = JNull\<rparr>", OF rej] rej
  show ?thesis by simp
qed

end
